theory Spec2Isabelle
  imports Complex_Main "HOL-Library.Sublist"
begin

section \<open>Shadow Defective: image preparation, GPS metadata and request orchestration\<close>

text \<open>
  A shallow embedding of \<^verbatim>\<open>shadow_defective.py\<close>. A definition carries the name of
  the Python function or local variable it embeds; where it stands for a part of a function,
  its text says which. Widgets are the fields of one record, exceptions are values of a sum
  type, and what the program gets from outside (the file system, \<^verbatim>\<open>mimetypes\<close>, the
  provider's endpoint) is a field of the record \<open>world\<close>.

  Python strings are lists of \<^typ>\<open>char\<close>; a \<^typ>\<open>char\<close> stands for a code point below
  256. Python floats are modelled by exact rationals, so rounding errors of IEEE doubles,
  infinities and NaN are outside the model.
\<close>

subsection \<open>Python string operations\<close>

text \<open>\<^verbatim>\<open>str.isspace\<close> on one code point below 256.\<close>

definition is_space :: "char \<Rightarrow> bool" where
  "is_space c =
     (let n = (of_char c :: nat)
      in (9 \<le> n \<and> n \<le> 13) \<or> (28 \<le> n \<and> n \<le> 32) \<or> n = 133 \<or> n = 160)"

text \<open>\<^verbatim>\<open>s.strip()\<close>: leading and trailing whitespace removed.\<close>

definition strip :: "string \<Rightarrow> string" where
  "strip s = rev (dropWhile is_space (rev (dropWhile is_space s)))"

text \<open>\<^verbatim>\<open>s.lower()\<close> on code points below 256.\<close>

definition lower_char :: "char \<Rightarrow> char" where
  "lower_char c =
     (let n = (of_char c :: nat)
      in if (65 \<le> n \<and> n \<le> 90) \<or> (192 \<le> n \<and> n \<le> 222 \<and> n \<noteq> 215)
         then char_of (n + 32) else c)"

definition lower :: "string \<Rightarrow> string" where
  "lower s = map lower_char s"

text \<open>\<^verbatim>\<open>sub in s\<close>: \<open>sub\<close> occurs in \<open>s\<close> as a contiguous run.\<close>

fun str_in :: "string \<Rightarrow> string \<Rightarrow> bool" where
  "str_in sub [] = (sub = [])"
| "str_in sub (c # cs) = (prefix sub (c # cs) \<or> str_in sub cs)"

text \<open>
  \<^verbatim>\<open>s.replace(old, new)\<close>: every occurrence of \<open>old\<close>, found from the left and without
  overlap, becomes \<open>new\<close>. With an empty \<open>old\<close> Python puts \<open>new\<close> before every character
  and at the end.
\<close>

fun replace :: "string \<Rightarrow> string \<Rightarrow> string \<Rightarrow> string" where
  "replace old new [] = (if old = [] then new else [])"
| "replace old new (c # cs) =
     (if old = [] then new @ c # replace old new cs
      else if prefix old (c # cs) then new @ replace old new (drop (length old) (c # cs))
      else c # replace old new cs)"

text \<open>
  A pattern none of whose proper non-empty prefixes is also its suffix: two occurrences of
  such a pattern never overlap.
\<close>

definition borderless :: "string \<Rightarrow> bool" where
  "borderless old =
     list_all (\<lambda>k. take k old \<noteq> drop (length old - k) old) [1..<length old]"

subsection \<open>Module constants\<close>

definition MAX_IMAGE_DIMENSION :: nat where
  "MAX_IMAGE_DIMENSION = 1920"

definition DEFAULT_PROMPT :: string where
  "DEFAULT_PROMPT =
     ''Based on the length and direction of the shadows, '' @
     ''the architectural landmarks, and the known latitude/longitude '' @
     ''({lat}, {lon}), calculate the approximate solar angle '' @
     ''and time of day. Walk me through your reasoning.''"

subsection \<open>Exceptions and images\<close>

datatype py_error =
  OSError | KeyError | ValueError | TypeError | AttributeError | ZeroDivisionError

text \<open>
  What the program reads of a PIL image object: \<^verbatim>\<open>img.format\<close>, \<^verbatim>\<open>img.mode\<close> and
  \<^verbatim>\<open>img.size\<close>.
\<close>

record pil_image =
  img_format :: "string option"
  img_mode :: string
  img_width :: nat
  img_height :: nat

text \<open>
  Modelled from the spec: \<^verbatim>\<open>Image.thumbnail\<close> is code of the Pillow library, which is not
  among the repository's files. The spec (4.1) says: if either dimension exceeds the bound,
  the image is downsampled proportionally so that neither dimension exceeds it, preserving
  the aspect ratio; an image already within the bound is left unchanged. The three
  definitions below follow Pillow's own size rule, which refines these words: the side that
  reaches the bound is set to it, the other side is the proportional value rounded down or
  up, whichever keeps the aspect ratio closer, and never below one pixel. Pillow computes
  with doubles; the model computes with rationals.
\<close>

definition round_aspect :: "rat \<Rightarrow> (int \<Rightarrow> rat) \<Rightarrow> int" where
  "round_aspect number key =
     max (if key \<lfloor>number\<rfloor> \<le> key \<lceil>number\<rceil> then \<lfloor>number\<rfloor> else \<lceil>number\<rceil>) 1"

text \<open>
  Modelled from the spec: the size \<^verbatim>\<open>thumbnail\<close> gives an image of width \<open>w\<close> and
  height \<open>h\<close> for the bound \<open>(x, y)\<close>; \<open>None\<close> when the image is within the bound and
  stays as it is. Python raises \<^verbatim>\<open>ZeroDivisionError\<close> where the model does.
\<close>

definition preserve_aspect_ratio :: "nat \<times> nat \<Rightarrow> pil_image \<Rightarrow> py_error + (nat \<times> nat) option" where
  "preserve_aspect_ratio sz im =
     (let x = fst sz; y = snd sz; w = img_width im; h = img_height im
      in if w \<le> x \<and> h \<le> y then Inr None
         else if h = 0 \<or> y = 0 then Inl ZeroDivisionError
         else
           let aspect = (of_nat w :: rat) / of_nat h
           in if aspect \<le> of_nat x / of_nat y
              then Inr (Some (nat (round_aspect (of_nat y * aspect)
                                     (\<lambda>n. \<bar>aspect - of_int n / of_nat y\<bar>)), y))
              else Inr (Some (x, nat (round_aspect (of_nat x / aspect)
                                        (\<lambda>n. if n = 0 then 0 else \<bar>aspect - of_nat x / of_int n\<bar>)))))"

text \<open>
  Modelled from the spec: \<^verbatim>\<open>img.thumbnail(size)\<close> changes the image in place; its
  format and mode stay, its size becomes the one computed above.
\<close>

definition thumbnail :: "nat \<times> nat \<Rightarrow> pil_image \<Rightarrow> py_error + pil_image" where
  "thumbnail sz im =
     (case preserve_aspect_ratio sz im of
        Inl e \<Rightarrow> Inl e
      | Inr None \<Rightarrow> Inr im
      | Inr (Some final_size) \<Rightarrow>
          Inr (im\<lparr>img_width := fst final_size, img_height := snd final_size\<rparr>))"

text \<open>
  Modelled from the spec: \<^verbatim>\<open>img.convert(mode)\<close>, Pillow's as well, gives a new image of
  that mode and the same size; it has no format.
\<close>

definition convert :: "string \<Rightarrow> pil_image \<Rightarrow> pil_image" where
  "convert m im = im\<lparr>img_format := None, img_mode := m\<rparr>"

text \<open>
  The PIL modes that carry an alpha channel (\<^verbatim>\<open>RGBA\<close>, \<^verbatim>\<open>LA\<close>, \<^verbatim>\<open>PA\<close> and the
  premultiplied \<^verbatim>\<open>RGBa\<close>, \<^verbatim>\<open>La\<close>) or a palette (\<^verbatim>\<open>P\<close>, \<^verbatim>\<open>PA\<close>).
\<close>

definition has_alpha_or_palette :: "string \<Rightarrow> bool" where
  "has_alpha_or_palette m = List.member [''RGBA'', ''LA'', ''PA'', ''RGBa'', ''La'', ''P''] m"

subsection \<open>The outside world\<close>

text \<open>
  The request sent to \<^verbatim>\<open>client.chat.completions.create\<close>: the model name, the text part,
  the data URI of the image part and the token cap.
\<close>

record chat_request =
  req_model :: string
  req_text :: string
  req_url :: string
  req_max_tokens :: nat

text \<open>
  The state in which \<^verbatim>\<open>encode_image\<close> calls \<^verbatim>\<open>img.save(buffer, format=fmt)\<close>: the
  image object, the format argument, and the MIME type it will return beside the base64
  text.
\<close>

record encoded =
  enc_image :: pil_image
  enc_format :: string
  enc_mime :: string

text \<open>
  \<^item> \<open>guess_type\<close>: the first component of \<^verbatim>\<open>mimetypes.guess_type(path)\<close>;
  \<^item> \<open>image_open\<close>: \<^verbatim>\<open>Image.open(path)\<close>, which raises or returns an image;
  \<^item> \<open>b64_saved\<close>: \<^verbatim>\<open>img.save\<close> followed by \<^verbatim>\<open>base64.b64encode\<close>: the writer for
    the format raises, or the base64 text of the bytes it wrote is returned;
  \<^item> \<open>chat_create\<close>: the provider's call for a credential and a request, which raises
    (\<open>Inl\<close>, the exception's text) or answers (\<open>Inr\<close>, the first choice's content);
  \<^item> \<open>str_exc\<close>: \<^verbatim>\<open>str(e)\<close> of a local exception.
\<close>

record world =
  guess_type :: "string \<Rightarrow> string option"
  image_open :: "string \<Rightarrow> py_error + pil_image"
  b64_saved :: "encoded \<Rightarrow> py_error + string"
  chat_create :: "string \<Rightarrow> chat_request \<Rightarrow> string + string"
  str_exc :: "py_error \<Rightarrow> string"

text \<open>
  A world for the examples: every path is a file whose name \<^verbatim>\<open>mimetypes\<close> does not
  know (such as \<^verbatim>\<open>scan\<close>, with no extension) and which holds a greyscale PNG with an
  alpha channel, 640 by 480, which Pillow opens in mode \<^verbatim>\<open>LA\<close>. Saving behaves as
  Pillow's JPEG writer does: it refuses every mode but \<^verbatim>\<open>1\<close>, \<^verbatim>\<open>L\<close>, \<^verbatim>\<open>RGB\<close>,
  \<^verbatim>\<open>RGBX\<close>, \<^verbatim>\<open>CMYK\<close> and \<^verbatim>\<open>YCbCr\<close>.
\<close>

definition scan_world :: world where
  "scan_world =
     \<lparr>guess_type = (\<lambda>path. None),
      image_open = (\<lambda>path. Inr \<lparr>img_format = Some ''PNG'', img_mode = ''LA'',
                                   img_width = 640, img_height = 480\<rparr>),
      b64_saved = (\<lambda>enc. if enc_format enc = ''JPEG'' \<and>
                              \<not> List.member [''1'', ''L'', ''RGB'', ''RGBX'', ''CMYK'', ''YCbCr'']
                                   (img_mode (enc_image enc))
                           then Inl OSError else Inr ''/9j/4AAQ''),
      chat_create = (\<lambda>api_key request. Inr ''Shadow points northeast.''),
      str_exc = (\<lambda>e. ''cannot write mode'')\<rparr>"

subsection \<open>APIWorker\<close>

text \<open>The fields \<^verbatim>\<open>__init__\<close> stores on the worker object.\<close>

record api_worker =
  w_api_key :: string
  w_image_path :: string
  w_lat :: string
  w_lon :: string
  w_prompt_template :: string

text \<open>
  \<^verbatim>\<open>encode_image\<close> up to its call of \<^verbatim>\<open>img.save\<close> (lines 40 to 54): the image is
  opened and bounded, the format and the MIME type are chosen, the mode is converted where
  the test says so.
\<close>

definition save_args :: "world \<Rightarrow> string \<Rightarrow> py_error + encoded" where
  "save_args env image_path =
     (case image_open env image_path of
        Inl e \<Rightarrow> Inl e
      | Inr opened \<Rightarrow>
         (case thumbnail (MAX_IMAGE_DIMENSION, MAX_IMAGE_DIMENSION) opened of
            Inl e \<Rightarrow> Inl e
          | Inr img \<Rightarrow>
              let fmt0 = (case img_format img of None \<Rightarrow> ''JPEG''
                          | Some f \<Rightarrow> if f = [] then ''JPEG'' else f);
                  guessed = (case guess_type env image_path of None \<Rightarrow> []
                             | Some m \<Rightarrow> m);
                  mime_type = (if guessed = [] then ''image/jpeg'' else guessed);
                  fmt = (if guessed = [] then ''JPEG'' else fmt0);
                  img' = (if mime_type = ''image/jpeg'' \<and>
                             (img_mode img = ''RGBA'' \<or> img_mode img = ''P'')
                          then convert ''RGB'' img else img)
              in Inr \<lparr>enc_image = img', enc_format = fmt, enc_mime = mime_type\<rparr>))"

text \<open>\<^verbatim>\<open>encode_image\<close>: the base64 text of the saved image, and the MIME type.\<close>

definition encode_image :: "world \<Rightarrow> string \<Rightarrow> py_error + string \<times> string" where
  "encode_image env image_path =
     (case save_args env image_path of
        Inl e \<Rightarrow> Inl e
      | Inr enc \<Rightarrow>
         (case b64_saved env enc of
            Inl e \<Rightarrow> Inl e
          | Inr base64_image \<Rightarrow> Inr (base64_image, enc_mime enc)))"

text \<open>Line 67 of the source: the two chained \<^verbatim>\<open>replace\<close> calls.\<close>

definition prompt_text :: "string \<Rightarrow> string \<Rightarrow> string \<Rightarrow> string" where
  "prompt_text prompt_template lat lon =
     replace ''{lon}'' lon (replace ''{lat}'' lat prompt_template)"

datatype signal = Finished string | Failed string

text \<open>
  \<^verbatim>\<open>run\<close>, in two parts: what it does before the provider is called (the image is
  encoded and the request is built, or an exception ends the attempt), and the call itself.
  Any exception becomes the \<^verbatim>\<open>error\<close> signal with the exception's text.
\<close>

definition request_of :: "world \<Rightarrow> api_worker \<Rightarrow> py_error + chat_request" where
  "request_of env self =
     (case encode_image env (w_image_path self) of
        Inl e \<Rightarrow> Inl e
      | Inr (base64_image, mime_type) \<Rightarrow>
          Inr \<lparr>req_model = ''gpt-4o'',
               req_text = prompt_text (w_prompt_template self) (w_lat self) (w_lon self),
               req_url = ''data:'' @ mime_type @ '';base64,'' @ base64_image,
               req_max_tokens = 1000\<rparr>)"

definition run :: "world \<Rightarrow> api_worker \<Rightarrow> signal" where
  "run env self =
     (case request_of env self of
        Inl e \<Rightarrow> Failed (str_exc env e)
      | Inr request \<Rightarrow>
         (case chat_create env (w_api_key self) request of
            Inl msg \<Rightarrow> Failed msg
          | Inr result_text \<Rightarrow> Finished result_text))"

subsection \<open>ShadowDetectiveApp\<close>

datatype button_text = Run_Shadow_Analysis | Analyzing_Shadows

datatype dialog = Warning string string | Critical string string

text \<open>
  The widgets and attributes the program reads and writes. \<open>started\<close> lists the workers on
  which \<^verbatim>\<open>start()\<close> was called, oldest first: only a started worker executes \<open>run\<close>, and
  only \<open>run\<close> calls the provider. \<open>dialogs\<close> lists the message boxes shown.
\<close>

record app =
  api_input :: string
  image_path :: "string option"
  lat_input :: string
  lon_input :: string
  prompt_edit :: string
  result_box :: string
  btn_analyze_enabled :: bool
  btn_analyze_text :: button_text
  progress_visible :: bool
  btn_save_enabled :: bool
  worker :: "api_worker option"
  started :: "api_worker list"
  dialogs :: "dialog list"

text \<open>The state \<^verbatim>\<open>__init__\<close> and \<^verbatim>\<open>initUI\<close> leave behind.\<close>

definition initial_app :: app where
  "initial_app =
     \<lparr>api_input = [], image_path = None, lat_input = [], lon_input = [],
      prompt_edit = DEFAULT_PROMPT, result_box = [],
      btn_analyze_enabled = True, btn_analyze_text = Run_Shadow_Analysis,
      progress_visible = False, btn_save_enabled = False,
      worker = None, started = [], dialogs = []\<rparr>"

text \<open>A filled-in form, for the examples: a key, a selected photograph, the Eiffel Tower.\<close>

definition sample_form :: app where
  "sample_form =
     initial_app\<lparr>api_input := ''sk-test'', image_path := Some ''photo.jpg'',
                 lat_input := ''48.8584'', lon_input := ''2.2945''\<rparr>"

text \<open>
  The calls that reach the provider: one for each started worker whose request could be
  built, with the credential and the request it sends.
\<close>

definition provider_calls :: "world \<Rightarrow> app \<Rightarrow> (string \<times> chat_request) list" where
  "provider_calls env self =
     concat (map (\<lambda>w. case request_of env w of Inl e \<Rightarrow> [] | Inr r \<Rightarrow> [(w_api_key w, r)])
                 (started self))"

definition warning :: "string \<Rightarrow> app \<Rightarrow> app" where
  "warning msg self = self\<lparr>dialogs := dialogs self @ [Warning ''Error'' msg]\<rparr>"

definition run_analysis :: "app \<Rightarrow> app" where
  "run_analysis self =
     (let api_key = strip (api_input self);
          lat = strip (lat_input self);
          lon = strip (lon_input self);
          prompt = strip (prompt_edit self)
      in if api_key = [] then warning ''Please enter your OpenAI API key.'' self
         else
          (case image_path self of
             None \<Rightarrow> warning ''Please select an image first.'' self
           | Some path \<Rightarrow>
               if path = [] then warning ''Please select an image first.'' self
               else if lat = [] \<or> lon = []
                 then warning ''Please provide both latitude and longitude.'' self
               else if prompt = [] then warning ''Prompt cannot be empty.'' self
               else
                 let w = \<lparr>w_api_key = api_key, w_image_path = path,
                          w_lat = lat, w_lon = lon, w_prompt_template = prompt\<rparr>
                 in self\<lparr>btn_analyze_enabled := False,
                         btn_analyze_text := Analyzing_Shadows,
                         progress_visible := True,
                         btn_save_enabled := False,
                         result_box := [],
                         worker := Some w,
                         started := started self @ [w]\<rparr>))"

definition reset_button :: "app \<Rightarrow> app" where
  "reset_button self =
     self\<lparr>btn_analyze_enabled := True,
          btn_analyze_text := Run_Shadow_Analysis,
          progress_visible := False\<rparr>"

text \<open>
  Both handlers are followed by \<^verbatim>\<open>worker.deleteLater\<close>, which frees the Qt side of the
  worker; neither it nor the handlers assign \<^verbatim>\<open>self.worker\<close>.
\<close>

definition on_analysis_complete :: "string \<Rightarrow> app \<Rightarrow> app" where
  "on_analysis_complete result self =
     reset_button (self\<lparr>result_box := result, btn_save_enabled := True\<rparr>)"

definition auth_hint :: string where
  "auth_hint = ''Authentication failed. Please check your OpenAI API key.''"

definition rate_hint :: string where
  "rate_hint = ''Rate limit or quota exceeded. Wait a moment or check your OpenAI billing.''"

definition network_hint :: string where
  "network_hint = ''Network error. Check your internet connection and try again.''"

text \<open>The three tests of \<^verbatim>\<open>on_analysis_error\<close>, in the order of its branches.\<close>

definition auth_marker :: "string \<Rightarrow> bool" where
  "auth_marker error_msg =
     (str_in ''401'' error_msg \<or> str_in ''Incorrect API key'' error_msg \<or>
      str_in ''invalid_api_key'' error_msg)"

definition rate_marker :: "string \<Rightarrow> bool" where
  "rate_marker error_msg = (str_in ''429'' error_msg \<or> str_in ''Rate limit'' error_msg)"

definition network_marker :: "string \<Rightarrow> bool" where
  "network_marker error_msg =
     (str_in ''Connection'' error_msg \<or> str_in ''Network'' error_msg \<or>
      str_in ''timeout'' (lower error_msg))"

text \<open>The local variable \<^verbatim>\<open>user_msg\<close> of \<^verbatim>\<open>on_analysis_error\<close>.\<close>

definition user_msg :: "string \<Rightarrow> string" where
  "user_msg error_msg =
     (if auth_marker error_msg then auth_hint
      else if rate_marker error_msg then rate_hint
      else if network_marker error_msg then network_hint
      else error_msg)"

definition on_analysis_error :: "string \<Rightarrow> app \<Rightarrow> app" where
  "on_analysis_error error_msg self =
     reset_button
       (self\<lparr>dialogs := dialogs self @
          [Critical ''API Error'' (''An error occurred:'' @ [CHR 0x0A] @ user_msg error_msg)]\<rparr>)"

text \<open>
  One worker's life: \<open>run\<close> executes and its signal reaches the handler connected to it.
\<close>

definition deliver :: "signal \<Rightarrow> app \<Rightarrow> app" where
  "deliver sig self =
     (case sig of Finished result \<Rightarrow> on_analysis_complete result self
      | Failed error_msg \<Rightarrow> on_analysis_error error_msg self)"

subsection \<open>GPS metadata\<close>

text \<open>
  The values found in an EXIF GPS block, as far as the program looks at them. A component
  is a number (\<^verbatim>\<open>float()\<close> accepts it) or anything \<^verbatim>\<open>float()\<close> rejects. A value is a
  sequence of components, a string, or an object that is neither (it cannot be unpacked
  and equals no string).
\<close>

datatype comp = Num rat | NotNum

datatype gps_val = Tuple "comp list" | Text string | Opaque

datatype gps_key = Name string | Id nat

text \<open>A value of the EXIF dictionary: a dictionary itself, or a value with no \<^verbatim>\<open>items()\<close>.\<close>

datatype exif_val = Dict "(nat \<times> gps_val) list" | NonDict

text \<open>
  \<^verbatim>\<open>TAGS.get(tag_id, tag_id) == "GPSInfo"\<close>: in \<^verbatim>\<open>PIL.ExifTags\<close> this is tag 34853.
\<close>

definition is_GPSInfo :: "nat \<Rightarrow> bool" where
  "is_GPSInfo tag_id = (tag_id = 34853)"

text \<open>
  \<^verbatim>\<open>GPSTAGS.get(gps_tag_id, gps_tag_id)\<close> for the four tags the program reads; the names
  of the other tags are never looked up, so they stay numbers here.
\<close>

definition GPSTAGS_get :: "nat \<Rightarrow> gps_key" where
  "GPSTAGS_get gps_tag_id =
     (if gps_tag_id = 1 then Name ''GPSLatitudeRef''
      else if gps_tag_id = 2 then Name ''GPSLatitude''
      else if gps_tag_id = 3 then Name ''GPSLongitudeRef''
      else if gps_tag_id = 4 then Name ''GPSLongitude''
      else Id gps_tag_id)"

text \<open>\<^verbatim>\<open>d[k] = v\<close> on a dictionary kept as an association list.\<close>

fun dict_set :: "'k \<Rightarrow> 'v \<Rightarrow> ('k \<times> 'v) list \<Rightarrow> ('k \<times> 'v) list" where
  "dict_set k v [] = [(k, v)]"
| "dict_set k v ((k', v') # d) = (if k = k' then (k, v) # d else (k', v') # dict_set k v d)"

text \<open>The inner loop over \<^verbatim>\<open>value.items()\<close>.\<close>

fun gps_items :: "(nat \<times> gps_val) list \<Rightarrow> (gps_key \<times> gps_val) list \<Rightarrow> (gps_key \<times> gps_val) list" where
  "gps_items [] gps_info = gps_info"
| "gps_items ((gps_tag_id, gps_val) # rest) gps_info =
     gps_items rest (dict_set (GPSTAGS_get gps_tag_id) gps_val gps_info)"

text \<open>The outer loop over \<^verbatim>\<open>exif_data.items()\<close>.\<close>

fun exif_items :: "(nat \<times> exif_val) list \<Rightarrow> (gps_key \<times> gps_val) list \<Rightarrow> py_error + (gps_key \<times> gps_val) list" where
  "exif_items [] gps_info = Inr gps_info"
| "exif_items ((tag_id, v) # rest) gps_info =
     (if is_GPSInfo tag_id
      then (case v of NonDict \<Rightarrow> Inl AttributeError
            | Dict d \<Rightarrow> exif_items rest (gps_items d gps_info))
      else exif_items rest gps_info)"

text \<open>\<^verbatim>\<open>float(x)\<close>.\<close>

definition float_of :: "comp \<Rightarrow> py_error + rat" where
  "float_of x = (case x of Num r \<Rightarrow> Inr r | NotNum \<Rightarrow> Inl TypeError)"

text \<open>A one-character string as \<^verbatim>\<open>float()\<close> sees it: a decimal digit or not a number.\<close>

definition char_comp :: "char \<Rightarrow> comp" where
  "char_comp c =
     (let n = (of_char c :: nat)
      in if 48 \<le> n \<and> n \<le> 57 then Num (of_nat (n - 48)) else NotNum)"

text \<open>\<^verbatim>\<open>degrees, minutes, seconds = dms\<close>.\<close>

definition unpack3 :: "gps_val \<Rightarrow> py_error + comp \<times> comp \<times> comp" where
  "unpack3 dms =
     (case dms of
        Opaque \<Rightarrow> Inl TypeError
      | Tuple xs \<Rightarrow> (case xs of [a, b, c] \<Rightarrow> Inr (a, b, c) | _ \<Rightarrow> Inl ValueError)
      | Text s \<Rightarrow> (case s of [a, b, c] \<Rightarrow> Inr (char_comp a, char_comp b, char_comp c)
                   | _ \<Rightarrow> Inl ValueError))"

text \<open>\<^verbatim>\<open>round(x, 6)\<close>: to the nearest multiple of \<open>10\<^sup>-\<^sup>6\<close>, a tie to the even one.\<close>

definition round_half_even :: "rat \<Rightarrow> int" where
  "round_half_even x =
     (let f = \<lfloor>x\<rfloor>; d = x - of_int f
      in if d < 1 / 2 then f else if 1 / 2 < d then f + 1
         else if even f then f else f + 1)"

definition round6 :: "rat \<Rightarrow> rat" where
  "round6 x = of_int (round_half_even (x * 1000000)) / 1000000"

definition dms_to_dd :: "gps_val \<Rightarrow> gps_val \<Rightarrow> py_error + rat" where
  "dms_to_dd dms ref =
     (case unpack3 dms of
        Inl e \<Rightarrow> Inl e
      | Inr (degrees, minutes, seconds) \<Rightarrow>
         (case float_of degrees of
            Inl e \<Rightarrow> Inl e
          | Inr d \<Rightarrow>
             (case float_of minutes of
                Inl e \<Rightarrow> Inl e
              | Inr m \<Rightarrow>
                 (case float_of seconds of
                    Inl e \<Rightarrow> Inl e
                  | Inr s \<Rightarrow>
                      let dd = d + m / 60 + s / 3600;
                          dd' = (if ref = Text ''S'' \<or> ref = Text ''W'' then - dd else dd)
                      in Inr (round6 dd')))))"

text \<open>\<^verbatim>\<open>gps_info[key]\<close> and \<^verbatim>\<open>gps_info.get(key, default)\<close>.\<close>

definition dict_item :: "(gps_key \<times> gps_val) list \<Rightarrow> string \<Rightarrow> py_error + gps_val" where
  "dict_item gps_info key =
     (case map_of gps_info (Name key) of None \<Rightarrow> Inl KeyError | Some v \<Rightarrow> Inr v)"

definition dict_get :: "(gps_key \<times> gps_val) list \<Rightarrow> string \<Rightarrow> gps_val \<Rightarrow> gps_val" where
  "dict_get gps_info key dflt =
     (case map_of gps_info (Name key) of None \<Rightarrow> dflt | Some v \<Rightarrow> v)"

text \<open>
  The body of the \<^verbatim>\<open>try\<close> block of \<^verbatim>\<open>_try_populate_gps\<close>. \<open>getexif\<close> is what
  \<^verbatim>\<open>Image.open(image_path)._getexif()\<close> does: it raises, or returns \<^verbatim>\<open>None\<close> or a
  dictionary. \<open>str_float\<close> is \<^verbatim>\<open>str\<close> on a float.
\<close>

definition populate_gps :: "(rat \<Rightarrow> string) \<Rightarrow> py_error + (nat \<times> exif_val) list option \<Rightarrow> app \<Rightarrow> py_error + app" where
  "populate_gps str_float getexif self =
     (case getexif of
        Inl e \<Rightarrow> Inl e
      | Inr None \<Rightarrow> Inr self
      | Inr (Some exif_data) \<Rightarrow>
          if exif_data = [] then Inr self
          else
           (case exif_items exif_data [] of
              Inl e \<Rightarrow> Inl e
            | Inr gps_info \<Rightarrow>
                if gps_info = [] then Inr self
                else
                 (case dict_item gps_info ''GPSLatitude'' of
                    Inl e \<Rightarrow> Inl e
                  | Inr lat_dms \<Rightarrow>
                     (case dms_to_dd lat_dms (dict_get gps_info ''GPSLatitudeRef'' (Text ''N'')) of
                        Inl e \<Rightarrow> Inl e
                      | Inr lat \<Rightarrow>
                         (case dict_item gps_info ''GPSLongitude'' of
                            Inl e \<Rightarrow> Inl e
                          | Inr lon_dms \<Rightarrow>
                             (case dms_to_dd lon_dms
                                     (dict_get gps_info ''GPSLongitudeRef'' (Text ''E'')) of
                                Inl e \<Rightarrow> Inl e
                              | Inr lon \<Rightarrow>
                                  Inr (self\<lparr>lat_input := str_float lat,
                                            lon_input := str_float lon\<rparr>)))))))"

text \<open>
  \<^verbatim>\<open>_try_populate_gps\<close>: the body under \<^verbatim>\<open>except Exception: pass\<close>. Every exception
  of \<^typ>\<open>py_error\<close> is an \<^verbatim>\<open>Exception\<close>, so the handler takes them all.
\<close>

definition try_populate_gps :: "(rat \<Rightarrow> string) \<Rightarrow> py_error + (nat \<times> exif_val) list option \<Rightarrow> app \<Rightarrow> py_error + app" where
  "try_populate_gps str_float getexif self =
     (case populate_gps str_float getexif self of
        Inl e \<Rightarrow> Inr self
      | Inr self' \<Rightarrow> Inr self')"

text \<open>
  For the examples: \<^verbatim>\<open>str\<close> on the two floats that occur in them, and the EXIF
  dictionary of a photograph whose GPS block holds the two coordinates (tags 2 and 4:
  48 degrees, 51 minutes, 30.24 seconds and 2 degrees, 17 minutes, 40.2 seconds) and no
  hemisphere reference (tags 1 and 3).
\<close>

definition str_float_example :: "rat \<Rightarrow> string" where
  "str_float_example r =
     (if r = 488584 / 10000 then ''48.8584'' else if r = 22945 / 10000 then ''2.2945'' else ''?'')"

definition exif_without_refs :: "(nat \<times> exif_val) list" where
  "exif_without_refs =
     [(271, NonDict),
      (34853, Dict [(2, Tuple [Num 48, Num 51, Num (3024 / 100)]),
                    (4, Tuple [Num 2, Num 17, Num (402 / 10)])])]"

text \<open>The same block with a latitude of two components only.\<close>

definition exif_short_latitude :: "(nat \<times> exif_val) list" where
  "exif_short_latitude =
     [(34853, Dict [(2, Tuple [Num 48, Num 51]),
                    (4, Tuple [Num 2, Num 17, Num (402 / 10)])])]"

text \<open>
  A world whose every path is a JPEG photograph in mode \<^verbatim>\<open>RGB\<close>, 4000 by 3000, with
  the extension \<^verbatim>\<open>.jpg\<close>.
\<close>

definition photo_world :: world where
  "photo_world =
     scan_world\<lparr>guess_type := (\<lambda>path. Some ''image/jpeg''),
                image_open := (\<lambda>path. Inr \<lparr>img_format = Some ''JPEG'', img_mode = ''RGB'',
                                            img_width = 4000, img_height = 3000\<rparr>)\<rparr>"

section \<open>Facts about the string operations\<close>


lemma replace_absent: "old \<noteq> [] \<Longrightarrow> \<not> str_in old s \<Longrightarrow> replace old new s = s"
  by (induction s) simp_all



text \<open>
  An occurrence of a borderless pattern cannot begin inside \<open>p\<close> and end inside a later
  occurrence, unless \<open>p\<close> begins with the pattern.
\<close>

lemma borderless_no_overlap:
  assumes b: "borderless old" and ne: "p \<noteq> []" and np: "\<not> prefix old p"
    and pr: "prefix old (p @ old @ q)"
  shows False
proof -
  have short: "length p < length old"
  proof (rule ccontr)
    assume "\<not> length p < length old"
    then have "length old \<le> length p" by simp
    with pr have "prefix old p"
      by (metis prefix_length_prefix prefix_def)
    with np show False by simp
  qed
  define k where "k = length old - length p"
  from short ne have k: "0 < k" "k < length old" "length old - k = length p"
    by (cases p; simp add: k_def)+
  from pr have "old = take (length old) (p @ old @ q)"
    by (metis append_eq_conv_conj prefix_def)
  also have "\<dots> = p @ take k old"
    using short by (simp add: k_def)
  finally have "drop (length p) old = take k old"
    by (metis append_eq_conv_conj)
  with k have "take k old = drop (length old - k) old" by simp
  moreover from b k(1,2) have "take k old \<noteq> drop (length old - k) old"
    by (simp add: borderless_def list_all_iff)
  ultimately show False by simp
qed

text \<open>Every occurrence of a borderless pattern is replaced, whatever stands around it.\<close>

lemma replace_split:
  assumes "old \<noteq> []" and "borderless old"
  shows "replace old new (p @ old @ q) = replace old new p @ new @ replace old new q"
  using assms
proof (induction old new p rule: replace.induct)
  case (1 old new)
  then obtain c cs where old: "old = c # cs" by (cases old) auto
  have "replace old new (old @ q) = new @ replace old new (drop (length old) (old @ q))"
    unfolding old by simp
  with 1 show ?case by simp
next
  case (2 old new c cs)
  show ?case
  proof (cases "prefix old (c # cs)")
    case True
    then have len: "length old \<le> length (c # cs)" by (rule prefix_length_le)
    from True have "prefix old ((c # cs) @ old @ q)" by (rule prefix_prefix)
    then have "replace old new ((c # cs) @ old @ q)
        = new @ replace old new (drop (length old) ((c # cs) @ old @ q))"
      using 2 by simp
    also have "drop (length old) ((c # cs) @ old @ q) = drop (length old) (c # cs) @ old @ q"
      using len by (simp only: drop_append diff_is_0_eq' drop_0)
    also have "replace old new (drop (length old) (c # cs) @ old @ q)
        = replace old new (drop (length old) (c # cs)) @ new @ replace old new q"
      using 2 True by simp
    finally show ?thesis using 2 True by simp
  next
    case False
    have "\<not> prefix old ((c # cs) @ old @ q)"
      using borderless_no_overlap [of old "c # cs" q] 2 False by blast
    then have "replace old new ((c # cs) @ old @ q) = c # replace old new (cs @ old @ q)"
      using 2 by simp
    with 2 False show ?thesis by simp
  qed
qed

lemma replace_twice_split:
  assumes o1: "old1 \<noteq> []" "borderless old1" and o2: "old2 \<noteq> []" "borderless old2"
  shows "replace old2 new2 (replace old1 (a @ old2 @ b) (p @ old1 @ q)) =
     replace old2 new2 (replace old1 (a @ old2 @ b) p @ a) @ new2 @
     replace old2 new2 (b @ replace old1 (a @ old2 @ b) q)"
proof -
  let ?L = "a @ old2 @ b"
  have "replace old1 ?L (p @ old1 @ q) = replace old1 ?L p @ ?L @ replace old1 ?L q"
    using o1 by (rule replace_split)
  also have "\<dots> = (replace old1 ?L p @ a) @ old2 @ (b @ replace old1 ?L q)"
    by (simp only: append_assoc)
  finally show ?thesis
    using replace_split [OF o2, of new2 "replace old1 ?L p @ a" "b @ replace old1 ?L q"]
    by (simp only:)
qed

section \<open>Prompt resolution\<close>

text \<open>
  Claim C8. If the resolved prompt contains neither \<^verbatim>\<open>{lat}\<close> nor \<^verbatim>\<open>{lon}\<close>, then
  resolving it a second time, with the same coordinates, gives the same text: the
  substitution step is idempotent once no placeholder is left.
\<close>

theorem prompt_text_idempotent:
  assumes "\<not> str_in ''{lat}'' (prompt_text t la lo)"
    and "\<not> str_in ''{lon}'' (prompt_text t la lo)"
  shows "prompt_text (prompt_text t la lo) la lo = prompt_text t la lo"
proof -
  let ?r = "prompt_text t la lo"
  have "replace ''{lat}'' la ?r = ?r"
    using assms(1) by (intro replace_absent) simp_all
  moreover have "replace ''{lon}'' lo ?r = ?r"
    using assms(2) by (intro replace_absent) simp_all
  ultimately show ?thesis
    by (simp add: prompt_text_def [of ?r])
qed

text \<open>The spec's example: the template \<^verbatim>\<open>lat={lat} lon={lon}\<close> at (48.8584, 2.2945).\<close>

theorem prompt_text_idempotent_witness:
  "\<not> str_in ''{lat}'' (prompt_text ''lat={lat} lon={lon}'' ''48.8584'' ''2.2945'')
   \<and> \<not> str_in ''{lon}'' (prompt_text ''lat={lat} lon={lon}'' ''48.8584'' ''2.2945'')
   \<and> prompt_text ''lat={lat} lon={lon}'' ''48.8584'' ''2.2945'' = ''lat=48.8584 lon=2.2945''
   \<and> prompt_text ''lat=48.8584 lon=2.2945'' ''48.8584'' ''2.2945'' = ''lat=48.8584 lon=2.2945''"
proof -
  have r: "prompt_text ''lat={lat} lon={lon}'' ''48.8584'' ''2.2945'' = ''lat=48.8584 lon=2.2945''"
    by code_simp
  have a: "\<not> str_in ''{lat}'' ''lat=48.8584 lon=2.2945''" by code_simp
  have b: "\<not> str_in ''{lon}'' ''lat=48.8584 lon=2.2945''" by code_simp
  from prompt_text_idempotent [of "''lat={lat} lon={lon}''" "''48.8584''" "''2.2945''"] r a b
  show ?thesis by simp
qed

text \<open>
  Claim C10. \<^verbatim>\<open>{lat}\<close> is replaced everywhere first and \<^verbatim>\<open>{lon}\<close> afterwards, in the
  text that the first replacement produced. So where the template has \<^verbatim>\<open>{lat}\<close> and the
  latitude text itself contains \<^verbatim>\<open>{lon}\<close>, the resolved prompt has the longitude text at
  that place: the token that came in with the latitude is replaced as well.
\<close>

theorem prompt_text_lat_before_lon:
  "prompt_text (p @ ''{lat}'' @ q) (a @ ''{lon}'' @ b) lo =
     replace ''{lon}'' lo (replace ''{lat}'' (a @ ''{lon}'' @ b) p @ a) @ lo @
     replace ''{lon}'' lo (b @ replace ''{lat}'' (a @ ''{lon}'' @ b) q)"
  unfolding prompt_text_def
  by (rule replace_twice_split) (simp_all add: borderless_def upt_rec)

theorem prompt_text_lat_before_lon_witness:
  "prompt_text ''at {lat}.'' ''1{lon}2'' ''9'' = ''at 192.''"
proof -
  have "prompt_text (''at '' @ ''{lat}'' @ ''.'') (''1'' @ ''{lon}'' @ ''2'') ''9'' =
     replace ''{lon}'' ''9'' (replace ''{lat}'' (''1'' @ ''{lon}'' @ ''2'') ''at '' @ ''1'') @ ''9'' @
     replace ''{lon}'' ''9'' (''2'' @ replace ''{lat}'' (''1'' @ ''{lon}'' @ ''2'') ''.'')"
    by (rule prompt_text_lat_before_lon)
  then show ?thesis by simp
qed

section \<open>Error classification\<close>

lemma auth_hint_clean: "\<not> auth_marker auth_hint"
  by (simp add: auth_marker_def auth_hint_def)

text \<open>
  Claim C4, as the code has it. The three tests are tried in order and the first that
  succeeds decides: a message with an authentication marker (\<^verbatim>\<open>401\<close>,
  \<^verbatim>\<open>Incorrect API key\<close>, \<^verbatim>\<open>invalid_api_key\<close>) gets the authentication hint, which is
  never the raw message; a message with a rate marker (\<^verbatim>\<open>429\<close>, \<^verbatim>\<open>Rate limit\<close>) and
  no authentication marker gets the rate-limit hint; a message with a network marker
  (\<^verbatim>\<open>Connection\<close>, \<^verbatim>\<open>Network\<close>, \<^verbatim>\<open>timeout\<close> in any case) and none of the earlier
  markers gets the connectivity hint; every other message is passed through verbatim. The
  dialog shows the result after the line \<^verbatim>\<open>An error occurred:\<close>.
\<close>

theorem user_msg_by_first_marker:
  "(auth_marker m \<longrightarrow> user_msg m = auth_hint \<and> user_msg m \<noteq> m) \<and>
   (\<not> auth_marker m \<and> rate_marker m \<longrightarrow> user_msg m = rate_hint) \<and>
   (\<not> auth_marker m \<and> \<not> rate_marker m \<and> network_marker m \<longrightarrow> user_msg m = network_hint) \<and>
   (\<not> auth_marker m \<and> \<not> rate_marker m \<and> \<not> network_marker m \<longrightarrow> user_msg m = m) \<and>
   dialogs (on_analysis_error m a) =
     dialogs a @ [Critical ''API Error'' (''An error occurred:'' @ [CHR 0x0A] @ user_msg m)]"
proof -
  have "auth_marker m \<Longrightarrow> auth_hint \<noteq> m"
    using auth_hint_clean by auto
  then show ?thesis
    by (auto simp: user_msg_def on_analysis_error_def reset_button_def)
qed

text \<open>One message for each of the four outcomes.\<close>

theorem user_msg_by_first_marker_witness:
  "auth_marker ''Error code: 401 - Incorrect API key provided''
   \<and> user_msg ''Error code: 401 - Incorrect API key provided'' = auth_hint
   \<and> user_msg ''Error code: 401 - Incorrect API key provided'' \<noteq> ''Error code: 401 - Incorrect API key provided''
   \<and> \<not> auth_marker ''Error code: 429 - Rate limit reached''
   \<and> rate_marker ''Error code: 429 - Rate limit reached''
   \<and> user_msg ''Error code: 429 - Rate limit reached'' = rate_hint
   \<and> \<not> auth_marker ''Request Timeout'' \<and> \<not> rate_marker ''Request Timeout''
   \<and> network_marker ''Request Timeout''
   \<and> user_msg ''Request Timeout'' = network_hint
   \<and> \<not> auth_marker ''Error code: 500'' \<and> \<not> rate_marker ''Error code: 500''
   \<and> \<not> network_marker ''Error code: 500''
   \<and> user_msg ''Error code: 500'' = ''Error code: 500''"
proof -
  have a: "auth_marker ''Error code: 401 - Incorrect API key provided''"
    by (simp add: auth_marker_def)
  have b: "\<not> auth_marker ''Error code: 429 - Rate limit reached''
     \<and> rate_marker ''Error code: 429 - Rate limit reached''"
    by (simp add: auth_marker_def rate_marker_def)
  have c: "\<not> auth_marker ''Request Timeout'' \<and> \<not> rate_marker ''Request Timeout''
     \<and> network_marker ''Request Timeout''" by code_simp
  have d: "\<not> auth_marker ''Error code: 500'' \<and> \<not> rate_marker ''Error code: 500''
     \<and> \<not> network_marker ''Error code: 500''" by code_simp
  from a user_msg_by_first_marker [of "''Error code: 401 - Incorrect API key provided''" initial_app]
  have 1: "user_msg ''Error code: 401 - Incorrect API key provided'' = auth_hint
   \<and> user_msg ''Error code: 401 - Incorrect API key provided'' \<noteq> ''Error code: 401 - Incorrect API key provided''"
    by blast
  from b user_msg_by_first_marker [of "''Error code: 429 - Rate limit reached''" initial_app]
  have 2: "user_msg ''Error code: 429 - Rate limit reached'' = rate_hint"
    by blast
  from c user_msg_by_first_marker [of "''Request Timeout''" initial_app]
  have 3: "user_msg ''Request Timeout'' = network_hint"
    by blast
  from d user_msg_by_first_marker [of "''Error code: 500''" initial_app]
  have 4: "user_msg ''Error code: 500'' = ''Error code: 500''"
    by blast
  from a b c d 1 2 3 4 show ?thesis by blast
qed

text \<open>
  Claim C4 as stated fails: a message that contains \<^verbatim>\<open>429\<close> and \<^verbatim>\<open>Rate limit\<close> does
  not get the rate-limit hint when it also contains \<^verbatim>\<open>401\<close>, here inside the number
  24010; it gets whatever the first test says.
\<close>

theorem user_msg_429_counterexample:
  "str_in ''429'' ''Error code: 429 - Rate limit reached for gpt-4o: Limit 30000, Used 24010, Requested 7000.''
   \<and> user_msg ''Error code: 429 - Rate limit reached for gpt-4o: Limit 30000, Used 24010, Requested 7000.'' \<noteq> rate_hint"
  by (simp add: user_msg_def auth_marker_def auth_hint_def rate_hint_def)

section \<open>Submission\<close>










text \<open>
  Claim C6. If the credential, either coordinate or the prompt is empty or blank, or no
  image is selected, \<^verbatim>\<open>run_analysis\<close> does nothing but show one warning: no worker is
  created or started, so no call reaches the provider on behalf of this submission, and the
  button and the progress bar stay as they were (the pipeline does not enter Running).
\<close>

theorem run_analysis_rejects_blank_input:
  assumes "strip (api_input a) = [] \<or> image_path a = None \<or> image_path a = Some [] \<or>
           strip (lat_input a) = [] \<or> strip (lon_input a) = [] \<or> strip (prompt_edit a) = []"
  shows "\<exists>msg. run_analysis a = warning msg a
           \<and> dialogs (run_analysis a) = dialogs a @ [Warning ''Error'' msg]
           \<and> started (run_analysis a) = started a
           \<and> provider_calls env (run_analysis a) = provider_calls env a
           \<and> worker (run_analysis a) = worker a
           \<and> progress_visible (run_analysis a) = progress_visible a
           \<and> btn_analyze_enabled (run_analysis a) = btn_analyze_enabled a
           \<and> btn_analyze_text (run_analysis a) = btn_analyze_text a"
proof -
  have "\<exists>msg. run_analysis a = warning msg a"
    using assms by (auto simp: run_analysis_def Let_def split: option.splits)
  then obtain msg where "run_analysis a = warning msg a" ..
  then show ?thesis
    by (auto simp: warning_def provider_calls_def)
qed

text \<open>
  The spec's test: an empty credential with a valid image, coordinates and prompt. No
  worker has been started and no call has been made, whatever the world is.
\<close>

theorem run_analysis_rejects_blank_input_witness:
  "strip (api_input (sample_form\<lparr>api_input := []\<rparr>)) = []
   \<and> started (run_analysis (sample_form\<lparr>api_input := []\<rparr>)) = []
   \<and> worker (run_analysis (sample_form\<lparr>api_input := []\<rparr>)) = None
   \<and> \<not> progress_visible (run_analysis (sample_form\<lparr>api_input := []\<rparr>))
   \<and> (\<forall>env. provider_calls env (run_analysis (sample_form\<lparr>api_input := []\<rparr>)) = [])"
proof -
  let ?a = "sample_form\<lparr>api_input := []\<rparr>"
  have h: "strip (api_input ?a) = []" by (simp add: strip_def)
  have s: "started ?a = []" "worker ?a = None" "\<not> progress_visible ?a"
    by (simp_all add: sample_form_def initial_app_def)
  have p: "provider_calls env ?a = []" for env
    by (simp add: provider_calls_def sample_form_def initial_app_def)
  have "started (run_analysis ?a) = [] \<and> worker (run_analysis ?a) = None
     \<and> \<not> progress_visible (run_analysis ?a) \<and> provider_calls env (run_analysis ?a) = []" for env
    using run_analysis_rejects_blank_input [of ?a env] h s p by auto
  with h show ?thesis by blast
qed

section \<open>Decimal degrees\<close>






lemma dms_to_dd_numbers:
  "dms_to_dd (Tuple [Num d, Num m, Num s]) ref =
     Inr (round6 (if ref = Text ''S'' \<or> ref = Text ''W''
                  then - (d + m / 60 + s / 3600) else d + m / 60 + s / 3600))"
  by (simp add: dms_to_dd_def unpack3_def float_of_def Let_def)




section \<open>GPS metadata extraction\<close>

text \<open>A coordinate converts exactly when it unpacks into three numbers.\<close>

lemma dms_to_dd_ok_iff:
  "(\<exists>r. dms_to_dd v ref = Inr r) \<longleftrightarrow> (\<exists>d m s. unpack3 v = Inr (Num d, Num m, Num s))"
  by (auto simp: dms_to_dd_def float_of_def Let_def split: sum.splits comp.splits prod.splits)

lemma try_populate_gps_returns: "\<exists>a'. try_populate_gps sf g a = Inr a'"
  by (simp add: try_populate_gps_def split: sum.splits)

lemma try_populate_gps_raised:
  "populate_gps sf g a = Inl e \<Longrightarrow> try_populate_gps sf g a = Inr a"
  by (simp add: try_populate_gps_def)

lemma populate_gps_no_exif:
  "g = Inl e \<or> g = Inr None \<or> g = Inr (Some []) \<Longrightarrow> try_populate_gps sf g a = Inr a"
  by (auto simp: try_populate_gps_def populate_gps_def)

lemma dict_item_nonempty: "dict_item gps_info key = Inr v \<Longrightarrow> gps_info \<noteq> []"
  by (auto simp: dict_item_def)

lemma populate_gps_no_block:
  assumes "exif_items exif_data [] = Inl e \<or> exif_items exif_data [] = Inr []"
  shows "try_populate_gps sf (Inr (Some exif_data)) a = Inr a"
  using assms by (auto simp: try_populate_gps_def populate_gps_def)

lemma populate_gps_no_coordinate:
  assumes "exif_items exif_data [] = Inr gps_info"
    and "dict_item gps_info ''GPSLatitude'' = Inl e \<or> dict_item gps_info ''GPSLongitude'' = Inl e"
  shows "try_populate_gps sf (Inr (Some exif_data)) a = Inr a"
proof -
  have "populate_gps sf (Inr (Some exif_data)) a = Inr a \<or>
        (\<exists>e'. populate_gps sf (Inr (Some exif_data)) a = Inl e')"
    using assms by (auto simp: populate_gps_def split: sum.splits)
  then show ?thesis by (auto simp: try_populate_gps_def)
qed

lemma populate_gps_malformed:
  assumes "exif_items exif_data [] = Inr gps_info"
    and "dict_item gps_info ''GPSLatitude'' = Inr lat_dms"
    and "dict_item gps_info ''GPSLongitude'' = Inr lon_dms"
    and "dms_to_dd lat_dms (dict_get gps_info ''GPSLatitudeRef'' (Text ''N'')) = Inl e \<or>
         dms_to_dd lon_dms (dict_get gps_info ''GPSLongitudeRef'' (Text ''E'')) = Inl e"
  shows "try_populate_gps sf (Inr (Some exif_data)) a = Inr a"
proof -
  have "populate_gps sf (Inr (Some exif_data)) a = Inr a \<or>
        (\<exists>e'. populate_gps sf (Inr (Some exif_data)) a = Inl e')"
    using assms by (auto simp: populate_gps_def split: sum.splits)
  then show ?thesis by (auto simp: try_populate_gps_def)
qed

lemma populate_gps_usable:
  assumes "exif_items exif_data [] = Inr gps_info"
    and "dict_item gps_info ''GPSLatitude'' = Inr lat_dms"
    and "dict_item gps_info ''GPSLongitude'' = Inr lon_dms"
    and "dms_to_dd lat_dms (dict_get gps_info ''GPSLatitudeRef'' (Text ''N'')) = Inr la"
    and "dms_to_dd lon_dms (dict_get gps_info ''GPSLongitudeRef'' (Text ''E'')) = Inr lo"
  shows "try_populate_gps sf (Inr (Some exif_data)) a =
           Inr (a\<lparr>lat_input := sf la, lon_input := sf lo\<rparr>)"
proof -
  from assms(2) have ne: "gps_info \<noteq> []" by (rule dict_item_nonempty)
  with assms(1) have "exif_data \<noteq> []" by auto
  with ne assms show ?thesis
    by (simp add: try_populate_gps_def populate_gps_def)
qed

text \<open>
  Claim C3, as the code has it. \<^verbatim>\<open>_try_populate_gps\<close> always returns and never raises:
  whatever the body raises is absorbed and the two coordinate fields are left as they
  were. That is the outcome when the file cannot be opened or has no metadata, when the
  GPS block is missing, empty or not a dictionary, when the latitude or the longitude is
  missing, and when either of them is malformed (it does not unpack into three values
  that \<^verbatim>\<open>float()\<close> accepts). A hemisphere reference is treated otherwise: a missing one
  is taken as \<^verbatim>\<open>N\<close> or \<^verbatim>\<open>E\<close>, and with two well-formed coordinates both fields are
  populated.
\<close>

theorem try_populate_gps_absorbs:
  "(\<exists>a'. try_populate_gps sf g a = Inr a') \<and>
   (populate_gps sf g a = Inl e \<longrightarrow> try_populate_gps sf g a = Inr a) \<and>
   (g = Inl e \<or> g = Inr None \<or> g = Inr (Some []) \<longrightarrow> try_populate_gps sf g a = Inr a) \<and>
   (g = Inr (Some exif_data) \<and> (exif_items exif_data [] = Inl e \<or> exif_items exif_data [] = Inr [])
      \<longrightarrow> try_populate_gps sf g a = Inr a) \<and>
   (g = Inr (Some exif_data) \<and> exif_items exif_data [] = Inr gps_info \<and>
    (dict_item gps_info ''GPSLatitude'' = Inl e \<or> dict_item gps_info ''GPSLongitude'' = Inl e)
      \<longrightarrow> try_populate_gps sf g a = Inr a) \<and>
   (g = Inr (Some exif_data) \<and> exif_items exif_data [] = Inr gps_info \<and>
    dict_item gps_info ''GPSLatitude'' = Inr lat_dms \<and>
    dict_item gps_info ''GPSLongitude'' = Inr lon_dms \<and>
    (dms_to_dd lat_dms (dict_get gps_info ''GPSLatitudeRef'' (Text ''N'')) = Inl e \<or>
     dms_to_dd lon_dms (dict_get gps_info ''GPSLongitudeRef'' (Text ''E'')) = Inl e)
      \<longrightarrow> try_populate_gps sf g a = Inr a) \<and>
   (g = Inr (Some exif_data) \<and> exif_items exif_data [] = Inr gps_info \<and>
    dict_item gps_info ''GPSLatitude'' = Inr lat_dms \<and>
    dict_item gps_info ''GPSLongitude'' = Inr lon_dms \<and>
    dms_to_dd lat_dms (dict_get gps_info ''GPSLatitudeRef'' (Text ''N'')) = Inr la \<and>
    dms_to_dd lon_dms (dict_get gps_info ''GPSLongitudeRef'' (Text ''E'')) = Inr lo
      \<longrightarrow> try_populate_gps sf g a = Inr (a\<lparr>lat_input := sf la, lon_input := sf lo\<rparr>))"
  using try_populate_gps_returns [of sf g a] try_populate_gps_raised [of sf g a e]
    populate_gps_no_exif [of g e sf a]
    populate_gps_no_block [of exif_data e sf a]
    populate_gps_no_coordinate [of exif_data gps_info e sf a]
    populate_gps_malformed [of exif_data gps_info lat_dms lon_dms e sf a]
    populate_gps_usable [of exif_data gps_info lat_dms lon_dms la lo sf a]
  by blast

lemma exif_without_refs_items:
  "exif_items exif_without_refs [] =
     Inr [(Name ''GPSLatitude'', Tuple [Num 48, Num 51, Num (3024 / 100)]),
          (Name ''GPSLongitude'', Tuple [Num 2, Num 17, Num (402 / 10)])]"
  by (simp add: exif_without_refs_def is_GPSInfo_def GPSTAGS_get_def)

lemma exif_short_latitude_items:
  "exif_items exif_short_latitude [] =
     Inr [(Name ''GPSLatitude'', Tuple [Num 48, Num 51]),
          (Name ''GPSLongitude'', Tuple [Num 2, Num 17, Num (402 / 10)])]"
  by (simp add: exif_short_latitude_def is_GPSInfo_def GPSTAGS_get_def)

text \<open>
  A file without metadata and a latitude of two components leave the form as it was; the
  block with two well-formed coordinates fills both fields.
\<close>

theorem try_populate_gps_absorbs_witness:
  "try_populate_gps str_float_example (Inr None) sample_form = Inr sample_form
   \<and> dms_to_dd (Tuple [Num 48, Num 51]) (Text ''N'') = Inl ValueError
   \<and> try_populate_gps str_float_example (Inr (Some exif_short_latitude)) sample_form
       = Inr sample_form
   \<and> try_populate_gps str_float_example (Inr (Some exif_without_refs)) initial_app
       = Inr (initial_app\<lparr>lat_input := str_float_example (488584 / 10000),
                           lon_input := str_float_example (22945 / 10000)\<rparr>)"
proof -
  let ?gs = "[(Name ''GPSLatitude'', Tuple [Num 48, Num 51]),
              (Name ''GPSLongitude'', Tuple [Num 2, Num 17, Num (402 / 10)])]"
  let ?gw = "[(Name ''GPSLatitude'', Tuple [Num 48, Num 51, Num (3024 / 100)]),
              (Name ''GPSLongitude'', Tuple [Num 2, Num 17, Num (402 / 10)])]"
  have 1: "try_populate_gps str_float_example (Inr None) sample_form = Inr sample_form"
    using try_populate_gps_absorbs [where g = "Inr None" and a = sample_form
        and sf = str_float_example]
    by simp
  have bad: "dms_to_dd (Tuple [Num 48, Num 51]) (Text ''N'') = Inl ValueError"
    by (simp add: dms_to_dd_def unpack3_def)
  have s: "dict_item ?gs ''GPSLatitude'' = Inr (Tuple [Num 48, Num 51])"
    "dict_item ?gs ''GPSLongitude'' = Inr (Tuple [Num 2, Num 17, Num (402 / 10)])"
    "dict_get ?gs ''GPSLatitudeRef'' (Text ''N'') = Text ''N''"
    by (simp_all add: dict_item_def dict_get_def)
  have 2: "try_populate_gps str_float_example (Inr (Some exif_short_latitude)) sample_form
       = Inr sample_form"
    using try_populate_gps_absorbs [where g = "Inr (Some exif_short_latitude)"
        and a = sample_form and sf = str_float_example and exif_data = exif_short_latitude
        and gps_info = ?gs and lat_dms = "Tuple [Num 48, Num 51]"
        and lon_dms = "Tuple [Num 2, Num 17, Num (402 / 10)]" and e = ValueError]
      exif_short_latitude_items s bad
    by simp
  have w: "dict_item ?gw ''GPSLatitude'' = Inr (Tuple [Num 48, Num 51, Num (3024 / 100)])"
    "dict_item ?gw ''GPSLongitude'' = Inr (Tuple [Num 2, Num 17, Num (402 / 10)])"
    "dict_get ?gw ''GPSLatitudeRef'' (Text ''N'') = Text ''N''"
    "dict_get ?gw ''GPSLongitudeRef'' (Text ''E'') = Text ''E''"
    by (simp_all add: dict_item_def dict_get_def)
  have c: "dms_to_dd (Tuple [Num 48, Num 51, Num (3024 / 100)]) (Text ''N'') = Inr (488584 / 10000)"
    "dms_to_dd (Tuple [Num 2, Num 17, Num (402 / 10)]) (Text ''E'') = Inr (22945 / 10000)"
    by (simp_all add: dms_to_dd_numbers round6_def round_half_even_def)
  have 3: "try_populate_gps str_float_example (Inr (Some exif_without_refs)) initial_app
       = Inr (initial_app\<lparr>lat_input := str_float_example (488584 / 10000),
                           lon_input := str_float_example (22945 / 10000)\<rparr>)"
    using try_populate_gps_absorbs [where g = "Inr (Some exif_without_refs)"
        and a = initial_app and sf = str_float_example and exif_data = exif_without_refs
        and gps_info = ?gw and lat_dms = "Tuple [Num 48, Num 51, Num (3024 / 100)]"
        and lon_dms = "Tuple [Num 2, Num 17, Num (402 / 10)]"
        and la = "488584 / 10000" and lo = "22945 / 10000"]
      exif_without_refs_items w c
    by simp
  from 1 bad 2 3 show ?thesis by blast
qed

text \<open>
  Claim C3 as stated fails for a missing sub-field that is a hemisphere reference: the
  GPS block below has neither \<^verbatim>\<open>GPSLatitudeRef\<close> nor \<^verbatim>\<open>GPSLongitudeRef\<close>, and both
  coordinate fields are populated.
\<close>

theorem try_populate_gps_missing_ref_counterexample:
  "exif_items exif_without_refs [] =
     Inr [(Name ''GPSLatitude'', Tuple [Num 48, Num 51, Num (3024 / 100)]),
          (Name ''GPSLongitude'', Tuple [Num 2, Num 17, Num (402 / 10)])]
   \<and> dict_item [(Name ''GPSLatitude'', Tuple [Num 48, Num 51, Num (3024 / 100)]),
                (Name ''GPSLongitude'', Tuple [Num 2, Num 17, Num (402 / 10)])]
        ''GPSLatitudeRef'' = Inl KeyError
   \<and> try_populate_gps str_float_example (Inr (Some exif_without_refs)) initial_app =
       Inr (initial_app\<lparr>lat_input := ''48.8584'', lon_input := ''2.2945''\<rparr>)
   \<and> try_populate_gps str_float_example (Inr (Some exif_without_refs)) initial_app
       \<noteq> Inr initial_app"
proof -
  have ne: "exif_without_refs \<noteq> []" by (simp add: exif_without_refs_def)
  have k: "dict_item [(Name ''GPSLatitude'', Tuple [Num 48, Num 51, Num (3024 / 100)]),
                (Name ''GPSLongitude'', Tuple [Num 2, Num 17, Num (402 / 10)])]
        ''GPSLatitudeRef'' = Inl KeyError"
    by (simp add: dict_item_def)
  have t: "try_populate_gps str_float_example (Inr (Some exif_without_refs)) initial_app =
       Inr (initial_app\<lparr>lat_input := ''48.8584'', lon_input := ''2.2945''\<rparr>)"
    by (simp add: ne exif_without_refs_items try_populate_gps_def populate_gps_def
        dict_item_def dict_get_def dms_to_dd_numbers
        round6_def round_half_even_def str_float_example_def)
  have "lat_input (initial_app\<lparr>lat_input := ''48.8584'', lon_input := ''2.2945''\<rparr>)
          \<noteq> lat_input initial_app"
    by (simp add: initial_app_def)
  then have d: "initial_app\<lparr>lat_input := ''48.8584'', lon_input := ''2.2945''\<rparr> \<noteq> initial_app"
    by metis
  from exif_without_refs_items k t d show ?thesis by simp
qed

section \<open>Image encoding\<close>

lemma round_aspect_bounds:
  assumes "0 < number"
  shows "1 \<le> round_aspect number key" and "round_aspect number key \<le> \<lceil>number\<rceil>"
    and "\<bar>of_int (round_aspect number key) - number\<bar> < 1"
proof -
  have fl: "of_int \<lfloor>number\<rfloor> \<le> number" "number < of_int \<lfloor>number\<rfloor> + 1" by linarith+
  have ce: "of_int \<lceil>number\<rceil> - 1 < number" "number \<le> of_int \<lceil>number\<rceil>" by linarith+
  from assms ce have c1: "1 \<le> \<lceil>number\<rceil>" by linarith
  have fc: "\<lfloor>number\<rfloor> \<le> \<lceil>number\<rceil>" by (rule floor_le_ceiling)
  show "1 \<le> round_aspect number key" by (simp add: round_aspect_def)
  show "round_aspect number key \<le> \<lceil>number\<rceil>"
    using c1 fc by (simp add: round_aspect_def)
  show "\<bar>of_int (round_aspect number key) - number\<bar> < 1"
  proof (cases "1 \<le> \<lfloor>number\<rfloor>")
    case True
    then have "round_aspect number key = \<lfloor>number\<rfloor> \<or> round_aspect number key = \<lceil>number\<rceil>"
      using c1 by (auto simp: round_aspect_def)
    then show ?thesis using fl ce by auto
  next
    case False
    then have "\<lfloor>number\<rfloor> \<le> 0" by simp
    with fl have lt: "number < 1" by linarith
    with ce have "\<lceil>number\<rceil> \<le> 1" by linarith
    with c1 have "\<lceil>number\<rceil> = 1" by linarith
    with False have "round_aspect number key = 1" by (auto simp: round_aspect_def)
    with assms lt show ?thesis by simp
  qed
qed

lemma thumbnail_small:
  assumes "img_width im \<le> x" and "img_height im \<le> y"
  shows "thumbnail (x, y) im = Inr im"
  using assms by (simp add: thumbnail_def preserve_aspect_ratio_def)

text \<open>Not wider than high, and too high: the height becomes 1920.\<close>

lemma thumbnail_portrait:
  assumes big: "1920 < img_height im" and pos: "0 < img_width im"
    and le: "img_width im \<le> img_height im"
  shows "\<exists>w'. thumbnail (1920, 1920) im = Inr (im\<lparr>img_width := w', img_height := 1920\<rparr>)
           \<and> 1 \<le> w' \<and> w' \<le> 1920
           \<and> \<bar>(of_nat w' :: rat) - 1920 * of_nat (img_width im) / of_nat (img_height im)\<bar> < 1"
proof -
  define w h where "w = img_width im" and "h = img_height im"
  define aspect where "aspect = (of_nat w :: rat) / of_nat h"
  define key where "key = (\<lambda>n::int. \<bar>aspect - of_int n / 1920\<bar>)"
  define r where "r = round_aspect (1920 * aspect) key"
  from big pos le have h: "0 < h" "0 < w" "w \<le> h" "1920 < h" by (simp_all add: w_def h_def)
  then have a01: "0 < aspect" "aspect \<le> 1" by (simp_all add: aspect_def)
  then have n: "0 < 1920 * aspect" "1920 * aspect \<le> 1920" by simp_all
  note b = round_aspect_bounds [OF n(1), of key, folded r_def]
  from n(2) have "\<lceil>1920 * aspect\<rceil> \<le> 1920" by (simp add: ceiling_le_iff)
  with b(2) have r1920: "r \<le> 1920" by linarith
  have th: "thumbnail (1920, 1920) im = Inr (im\<lparr>img_width := nat r, img_height := 1920\<rparr>)"
    using h a01
    by (simp add: thumbnail_def preserve_aspect_ratio_def Let_def w_def [symmetric] h_def [symmetric]
        aspect_def [symmetric] key_def [symmetric] r_def [symmetric])
  have "(of_nat (nat r) :: rat) = of_int r" using b(1) by simp
  moreover have "1920 * aspect = 1920 * of_nat (img_width im) / of_nat (img_height im)"
    by (simp add: aspect_def w_def h_def)
  ultimately have "\<bar>(of_nat (nat r) :: rat) - 1920 * of_nat (img_width im) / of_nat (img_height im)\<bar> < 1"
    using b(3) by simp
  with th b(1) r1920 show ?thesis by (intro exI [of _ "nat r"]) auto
qed

text \<open>Wider than high, and too wide: the width becomes 1920.\<close>

lemma thumbnail_landscape:
  assumes big: "1920 < img_width im" and pos: "0 < img_height im"
    and lt: "img_height im < img_width im"
  shows "\<exists>h'. thumbnail (1920, 1920) im = Inr (im\<lparr>img_width := 1920, img_height := h'\<rparr>)
           \<and> 1 \<le> h' \<and> h' \<le> 1920
           \<and> \<bar>(of_nat h' :: rat) - 1920 * of_nat (img_height im) / of_nat (img_width im)\<bar> < 1"
proof -
  define w h where "w = img_width im" and "h = img_height im"
  define aspect where "aspect = (of_nat w :: rat) / of_nat h"
  define key where "key = (\<lambda>n::int. if n = 0 then 0 else \<bar>aspect - of_nat (1920::nat) / of_int n\<bar>)"
  define r where "r = round_aspect (1920 / aspect) key"
  from big pos lt have h: "0 < h" "0 < w" "h < w" "1920 < w" by (simp_all add: w_def h_def)
  then have a1: "1 < aspect" by (simp add: aspect_def)
  then have n: "0 < 1920 / aspect" "1920 / aspect \<le> 1920"
    by (simp_all add: field_simps)
  note b = round_aspect_bounds [OF n(1), of key, folded r_def]
  from n(2) have "\<lceil>1920 / aspect\<rceil> \<le> 1920" by (simp add: ceiling_le_iff)
  with b(2) have r1920: "r \<le> 1920" by linarith
  have th: "thumbnail (1920, 1920) im = Inr (im\<lparr>img_width := 1920, img_height := nat r\<rparr>)"
    using h a1
    by (simp add: thumbnail_def preserve_aspect_ratio_def Let_def w_def [symmetric] h_def [symmetric]
        aspect_def [symmetric] key_def [symmetric] r_def [symmetric])
  have "(of_nat (nat r) :: rat) = of_int r" using b(1) by simp
  moreover have "1920 / aspect = 1920 * of_nat (img_height im) / of_nat (img_width im)"
    by (simp add: aspect_def w_def h_def)
  ultimately have "\<bar>(of_nat (nat r) :: rat) - 1920 * of_nat (img_height im) / of_nat (img_width im)\<bar> < 1"
    using b(3) by simp
  with th b(1) r1920 show ?thesis by (intro exI [of _ "nat r"]) auto
qed

text \<open>The steps after \<^verbatim>\<open>thumbnail\<close> keep the size.\<close>

lemma save_args_size:
  assumes "image_open env path = Inr im" and "thumbnail (1920, 1920) im = Inr im'"
  shows "\<exists>enc. save_args env path = Inr enc
           \<and> img_width (enc_image enc) = img_width im'
           \<and> img_height (enc_image enc) = img_height im'"
  using assms by (simp add: save_args_def MAX_IMAGE_DIMENSION_def Let_def convert_def)

text \<open>
  Claim C1. Let \<^verbatim>\<open>Image.open\<close> return an image. If neither side exceeds 1920, the image
  that \<^verbatim>\<open>encode_image\<close> saves and encodes has the same width and height. If a side
  exceeds 1920 (and both are positive), the image it saves has its longer side at exactly
  1920 and its other side at least one pixel and less than one pixel away from the exact
  proportional value (1920 times the shorter side over the longer side): the aspect ratio
  is the original's within rounding.
\<close>

theorem encode_image_dimensions:
  assumes "image_open env path = Inr im"
  shows "(img_width im \<le> 1920 \<and> img_height im \<le> 1920 \<longrightarrow>
           (\<exists>enc. save_args env path = Inr enc
              \<and> encode_image env path =
                  (case b64_saved env enc of Inl e \<Rightarrow> Inl e | Inr b \<Rightarrow> Inr (b, enc_mime enc))
              \<and> img_width (enc_image enc) = img_width im
              \<and> img_height (enc_image enc) = img_height im))
       \<and> (1920 < max (img_width im) (img_height im) \<and> 0 < img_width im \<and> 0 < img_height im \<longrightarrow>
           (\<exists>enc. save_args env path = Inr enc
              \<and> encode_image env path =
                  (case b64_saved env enc of Inl e \<Rightarrow> Inl e | Inr b \<Rightarrow> Inr (b, enc_mime enc))
              \<and> max (img_width (enc_image enc)) (img_height (enc_image enc)) \<le> 1920
              \<and> (if img_width im \<le> img_height im
                  then img_height (enc_image enc) = 1920 \<and> 1 \<le> img_width (enc_image enc)
                     \<and> \<bar>(of_nat (img_width (enc_image enc)) :: rat)
                          - 1920 * of_nat (img_width im) / of_nat (img_height im)\<bar> < 1
                  else img_width (enc_image enc) = 1920 \<and> 1 \<le> img_height (enc_image enc)
                     \<and> \<bar>(of_nat (img_height (enc_image enc)) :: rat)
                          - 1920 * of_nat (img_height im) / of_nat (img_width im)\<bar> < 1)))"
proof (intro conjI impI)
  assume "img_width im \<le> 1920 \<and> img_height im \<le> 1920"
  then have "thumbnail (1920, 1920) im = Inr im" by (simp add: thumbnail_small)
  from save_args_size [OF assms this] obtain enc where
    "save_args env path = Inr enc" "img_width (enc_image enc) = img_width im"
    "img_height (enc_image enc) = img_height im"
    by blast
  then show "\<exists>enc. save_args env path = Inr enc
      \<and> encode_image env path =
          (case b64_saved env enc of Inl e \<Rightarrow> Inl e | Inr b \<Rightarrow> Inr (b, enc_mime enc))
      \<and> img_width (enc_image enc) = img_width im \<and> img_height (enc_image enc) = img_height im"
    by (intro exI [of _ enc]) (simp add: encode_image_def)
next
  assume big: "1920 < max (img_width im) (img_height im) \<and> 0 < img_width im \<and> 0 < img_height im"
  show "\<exists>enc. save_args env path = Inr enc
      \<and> encode_image env path =
          (case b64_saved env enc of Inl e \<Rightarrow> Inl e | Inr b \<Rightarrow> Inr (b, enc_mime enc))
      \<and> max (img_width (enc_image enc)) (img_height (enc_image enc)) \<le> 1920
      \<and> (if img_width im \<le> img_height im
          then img_height (enc_image enc) = 1920 \<and> 1 \<le> img_width (enc_image enc)
             \<and> \<bar>(of_nat (img_width (enc_image enc)) :: rat)
                  - 1920 * of_nat (img_width im) / of_nat (img_height im)\<bar> < 1
          else img_width (enc_image enc) = 1920 \<and> 1 \<le> img_height (enc_image enc)
             \<and> \<bar>(of_nat (img_height (enc_image enc)) :: rat)
                  - 1920 * of_nat (img_height im) / of_nat (img_width im)\<bar> < 1)"
  proof (cases "img_width im \<le> img_height im")
    case True
    with big have hi: "1920 < img_height im" by auto
    from big have pw: "0 < img_width im" by simp
    from thumbnail_portrait [OF hi pw True] obtain w' where
      t: "thumbnail (1920, 1920) im = Inr (im\<lparr>img_width := w', img_height := 1920\<rparr>)"
      and w': "1 \<le> w'" "w' \<le> 1920"
        "\<bar>(of_nat w' :: rat) - 1920 * of_nat (img_width im) / of_nat (img_height im)\<bar> < 1"
      by blast
    from save_args_size [OF assms t] obtain enc where
      "save_args env path = Inr enc" "img_width (enc_image enc) = w'"
      "img_height (enc_image enc) = 1920"
      by auto
    with w' True show ?thesis
      by (intro exI [of _ enc]) (simp add: encode_image_def)
  next
    case False
    with big have wi: "1920 < img_width im" by auto
    from big have ph: "0 < img_height im" by simp
    from False have lt: "img_height im < img_width im" by simp
    from thumbnail_landscape [OF wi ph lt] obtain h' where
      t: "thumbnail (1920, 1920) im = Inr (im\<lparr>img_width := 1920, img_height := h'\<rparr>)"
      and h': "1 \<le> h'" "h' \<le> 1920"
        "\<bar>(of_nat h' :: rat) - 1920 * of_nat (img_height im) / of_nat (img_width im)\<bar> < 1"
      by blast
    from save_args_size [OF assms t] obtain enc where
      "save_args env path = Inr enc" "img_width (enc_image enc) = 1920"
      "img_height (enc_image enc) = h'"
      by auto
    with h' False show ?thesis
      by (intro exI [of _ enc]) (simp add: encode_image_def)
  qed
qed

text \<open>
  A photograph of 4000 by 3000 is saved at 1920 by 1440; the 640 by 480 scan keeps its
  size.
\<close>

theorem encode_image_dimensions_witness:
  "image_open photo_world ''photo.jpg'' =
     Inr \<lparr>img_format = Some ''JPEG'', img_mode = ''RGB'', img_width = 4000, img_height = 3000\<rparr>
   \<and> save_args photo_world ''photo.jpg'' =
       Inr \<lparr>enc_image = \<lparr>img_format = Some ''JPEG'', img_mode = ''RGB'',
                          img_width = 1920, img_height = 1440\<rparr>,
            enc_format = ''JPEG'', enc_mime = ''image/jpeg''\<rparr>
   \<and> encode_image photo_world ''photo.jpg'' = Inr (''/9j/4AAQ'', ''image/jpeg'')
   \<and> (\<exists>enc. save_args photo_world ''photo.jpg'' = Inr enc
         \<and> max (img_width (enc_image enc)) (img_height (enc_image enc)) \<le> 1920)
   \<and> (\<exists>enc. save_args scan_world ''scan'' = Inr enc
         \<and> img_width (enc_image enc) = 640 \<and> img_height (enc_image enc) = 480)"
proof -
  let ?big = "\<lparr>img_format = Some ''JPEG'', img_mode = ''RGB'', img_width = 4000, img_height = 3000\<rparr>"
  let ?small = "\<lparr>img_format = Some ''PNG'', img_mode = ''LA'', img_width = 640, img_height = 480\<rparr>"
  have o: "image_open photo_world ''photo.jpg'' = Inr ?big"
    by (simp add: photo_world_def scan_world_def)
  have o': "image_open scan_world ''scan'' = Inr ?small"
    by (simp add: scan_world_def)
  have s: "save_args photo_world ''photo.jpg'' =
       Inr \<lparr>enc_image = \<lparr>img_format = Some ''JPEG'', img_mode = ''RGB'',
                          img_width = 1920, img_height = 1440\<rparr>,
            enc_format = ''JPEG'', enc_mime = ''image/jpeg''\<rparr>"
    by (simp add: save_args_def photo_world_def scan_world_def thumbnail_def
        preserve_aspect_ratio_def round_aspect_def MAX_IMAGE_DIMENSION_def)
  have e: "encode_image photo_world ''photo.jpg'' = Inr (''/9j/4AAQ'', ''image/jpeg'')"
    by (simp add: encode_image_def s) (simp add: photo_world_def scan_world_def)
  from encode_image_dimensions [OF o]
  have 1: "\<exists>enc. save_args photo_world ''photo.jpg'' = Inr enc
         \<and> max (img_width (enc_image enc)) (img_height (enc_image enc)) \<le> 1920"
    by auto
  from encode_image_dimensions [OF o']
  have 2: "\<exists>enc. save_args scan_world ''scan'' = Inr enc
         \<and> img_width (enc_image enc) = 640 \<and> img_height (enc_image enc) = 480"
    by auto
  from o s e 1 2 show ?thesis by blast
qed

text \<open>
  What the code does convert: whenever the MIME type it reports is \<^verbatim>\<open>image/jpeg\<close>, the
  image it saves is in neither mode \<^verbatim>\<open>RGBA\<close> nor mode \<^verbatim>\<open>P\<close>.
\<close>

lemma save_args_converts_RGBA_P:
  assumes "save_args env path = Inr enc" and "enc_mime enc = ''image/jpeg''"
  shows "img_mode (enc_image enc) \<noteq> ''RGBA'' \<and> img_mode (enc_image enc) \<noteq> ''P''"
  using assms
  by (auto simp: save_args_def Let_def convert_def split: sum.splits if_splits)

text \<open>
  Claim C7 fails on the code. The test before \<^verbatim>\<open>img.save\<close> names the modes
  \<^verbatim>\<open>RGBA\<close> and \<^verbatim>\<open>P\<close> only. A greyscale image with an alpha channel (mode \<^verbatim>\<open>LA\<close>)
  in a file whose type is not recognised is given to \<^verbatim>\<open>img.save\<close> with the format
  \<^verbatim>\<open>JPEG\<close> and still in mode \<^verbatim>\<open>LA\<close>: the target encoding is JPEG, the mode has an
  alpha channel, and no conversion to \<^verbatim>\<open>RGB\<close> has taken place. With a JPEG writer that
  refuses the mode, as Pillow's does, \<^verbatim>\<open>encode_image\<close> raises.
\<close>

theorem encode_image_LA_as_JPEG:
  "has_alpha_or_palette ''LA'' \<and>
   save_args scan_world ''scan'' =
     Inr \<lparr>enc_image = \<lparr>img_format = Some ''PNG'', img_mode = ''LA'',
                        img_width = 640, img_height = 480\<rparr>,
          enc_format = ''JPEG'', enc_mime = ''image/jpeg''\<rparr> \<and>
   encode_image scan_world ''scan'' = Inl OSError"
proof -
  have s: "save_args scan_world ''scan'' =
     Inr \<lparr>enc_image = \<lparr>img_format = Some ''PNG'', img_mode = ''LA'',
                        img_width = 640, img_height = 480\<rparr>,
          enc_format = ''JPEG'', enc_mime = ''image/jpeg''\<rparr>"
    by (simp add: save_args_def scan_world_def thumbnail_def
        preserve_aspect_ratio_def MAX_IMAGE_DIMENSION_def)
  have "encode_image scan_world ''scan'' = Inl OSError"
    by (simp add: encode_image_def s) (simp add: scan_world_def)
  with s show ?thesis by (simp add: has_alpha_or_palette_def)
qed

section \<open>The credential\<close>

text \<open>Neither handler assigns \<^verbatim>\<open>self.worker\<close>.\<close>

lemma worker_deliver: "worker (deliver sig a) = worker a"
  by (cases sig)
    (simp_all add: deliver_def on_analysis_complete_def on_analysis_error_def reset_button_def)

text \<open>
  Claim C9 fails on the code. \<^verbatim>\<open>run_analysis\<close> stores the worker, which holds the
  credential in its field \<^verbatim>\<open>api_key\<close>, in \<^verbatim>\<open>self.worker\<close>, and neither handler clears
  that attribute: after the run has completed, or failed, the application object still
  reaches the credential through \<^verbatim>\<open>self.worker.api_key\<close>.
\<close>

theorem credential_retained_after_run:
  "map_option w_api_key
     (worker (on_analysis_complete ''Shadow points northeast.'' (run_analysis sample_form)))
     = Some ''sk-test''
   \<and> map_option w_api_key
       (worker (on_analysis_error ''Connection error.'' (run_analysis sample_form)))
     = Some ''sk-test''"
  by (simp add: on_analysis_complete_def on_analysis_error_def reset_button_def run_analysis_def
      sample_form_def initial_app_def DEFAULT_PROMPT_def strip_def is_space_def Let_def)

end
